theory Spec2Isabelle
  imports Main
begin

section \<open>Data model\<close>

text \<open>
  Paths are kept as a root flag and a list of segments: \<open>/a/b\<close> is
  \<open>Path True [a, b]\<close>, the relative path \<open>a/b\<close> is \<open>Path False [a, b]\<close>, and the empty
  string (which Node's path module reads as \<open>.\<close>) is \<open>Path False []\<close>.
\<close>

datatype path = Path (isAbsolute: bool) (segments: "string list")

definition dirname :: "path \<Rightarrow> path" where
  "dirname p = Path (isAbsolute p) (butlast (segments p))"

definition basename :: "path \<Rightarrow> path" where
  "basename p = Path False (case segments p of [] \<Rightarrow> [] | _ \<Rightarrow> [last (segments p)])"

definition join :: "path \<Rightarrow> string list \<Rightarrow> path" where
  "join p names = Path (isAbsolute p) (segments p @ names)"

text \<open>Values that cross the process boundary are plain JSON; equality on them is by value.\<close>

datatype json =
    JNull
  | JBool bool
  | JNum int
  | JStr string
  | JArr "json list"
  | JObj "(string \<times> json) list"

type_synonym ruleId = string
type_synonym message = json

text \<open>
  A JavaScript \<open>Map\<close>: an association list in insertion order. \<open>map_set\<close> is
  \<open>Map.prototype.set\<close>: an existing key keeps its position and gets the new value, a
  new key is appended.
\<close>

type_synonym ruleMap = "(ruleId \<times> json) list"

fun map_set :: "('k \<times> 'v) list \<Rightarrow> 'k \<Rightarrow> 'v \<Rightarrow> ('k \<times> 'v) list" where
  "map_set [] k v = [(k, v)]"
| "map_set ((k', v') # m) k v =
     (if k' = k then (k', v) # m else (k', v') # map_set m k v)"

record config =
  disableFSCache :: bool
  disableWhenNoEslintConfig :: bool
  disableEslintIgnore :: bool
  useGlobalEslint :: bool
  globalNodePath :: path
  advancedLocalNodeModules :: "path option"

record descriptor =
  path :: path
  locationType :: string

record lintResult =
  messages :: "message list"

record report =
  results :: "lintResult list"

datatype error = EngineNotFoundError | EngineExecutionError string

text \<open>The engine module: \<open>new eslint.CLIEngine(options)\<close> gives an object with
  \<open>executeOnText\<close>, which may throw.\<close>

record cliEngine =
  executeOnText :: "string \<Rightarrow> path \<Rightarrow> error + report"
  linterRules :: ruleMap

record 'o eslint =
  CLIEngine :: "'o \<Rightarrow> cliEngine"

record 'o jobConfig =
  contents :: string
  type :: string
  config :: config
  filePath :: path
  projectPath :: "path option"
  rules :: "(ruleId \<times> json) list option"
  emitKey :: string

datatype response =
    LintResponse "message list" "ruleMap option"
  | FixResponse string
  | DebugResponse descriptor
  | Undefined

fun updatedRules :: "response \<Rightarrow> ruleMap option" where
  "updatedRules (LintResponse ms u) = u"
| "updatedRules _ = None"

datatype event =
    FindCacheClear
  | ConfigChecked "path option" bool
  | LintJob path
  | FixJob path
  | OutputFixes report
  | Emit string response

text \<open>
  The module-level state of \<open>worker.js\<close> (\<open>rulesMetadata\<close>, \<open>sendRules\<close>) together
  with the log of what the worker did to the outside: cache clears, the configuration
  lookup with what it found (the path, and the value of \<open>noProjectConfig\<close>), job
  invocations, fixes written to disk and messages emitted.
\<close>

record world =
  rulesMetadata :: ruleMap
  sendRules :: bool
  trace :: "event list"

definition log_event :: "event \<Rightarrow> world \<Rightarrow> world" where
  "log_event e w = w\<lparr>trace := trace w @ [e]\<rparr>"

definition emitted :: "world \<Rightarrow> (string \<times> response) list" where
  "emitted w = concat (map (\<lambda>e. case e of Emit k r \<Rightarrow> [(k, r)] | _ \<Rightarrow> []) (trace w))"

definition jobsRun :: "world \<Rightarrow> event list" where
  "jobsRun w = filter (\<lambda>e. case e of LintJob _ \<Rightarrow> True | FixJob _ \<Rightarrow> True
                                  | OutputFixes _ \<Rightarrow> True | _ \<Rightarrow> False) (trace w)"

text \<open>
  The functions \<open>worker.js\<close> imports from \<open>./worker-helpers\<close>, \<open>./is-config-at-home-root\<close>
  and \<open>atom-linter\<close>. The worker is verified for every behaviour of these.
\<close>

record 'o helpers =
  getESLintInstance :: "path \<Rightarrow> config \<Rightarrow> path option \<Rightarrow> error + 'o eslint"
  getConfigPath :: "path \<Rightarrow> path option"
  isConfigAtHomeRoot :: "path \<Rightarrow> bool"
  getRelativePath :: "path \<Rightarrow> path \<Rightarrow> config \<Rightarrow> path option \<Rightarrow> path"
  getCLIEngineOptions ::
    "string \<Rightarrow> config \<Rightarrow> (ruleId \<times> json) list option \<Rightarrow> path \<Rightarrow> path \<Rightarrow> path option \<Rightarrow> 'o"
  getRules :: "cliEngine \<Rightarrow> ruleMap"
  didRulesChange :: "ruleMap \<Rightarrow> ruleMap \<Rightarrow> bool"
  findCached :: "path \<Rightarrow> string list \<Rightarrow> path option"
  findESLintDirectory :: "path \<Rightarrow> config \<Rightarrow> path option \<Rightarrow> error + descriptor"

section \<open>The worker (\<open>src/worker.js\<close>)\<close>

definition lintJob ::
  "'o helpers \<Rightarrow> world \<Rightarrow> 'o \<Rightarrow> string \<Rightarrow> 'o eslint \<Rightarrow> path \<Rightarrow> (error + report) \<times> world" where
  "lintJob H w0 cliEngineOptions contents' eslint filePath' =
     (let w = log_event (LintJob filePath') w0;
          cliEngine = CLIEngine eslint cliEngineOptions
      in case executeOnText cliEngine contents' filePath' of
           Inl e \<Rightarrow> (Inl e, w)
         | Inr report \<Rightarrow>
             (let rules = getRules H cliEngine;
                  w1 = w\<lparr>sendRules := didRulesChange H (rulesMetadata w) rules\<rparr>;
                  w2 = (if sendRules w1
                        then w1\<lparr>rulesMetadata :=
                                 foldl (\<lambda>m (rule, properties). map_set m rule properties) [] rules\<rparr>
                        else w1)
              in (Inr report, w2)))"

definition fixComplete :: string where
  "fixComplete = ''Linter-ESLint: Fix complete.''"

definition fixRemain :: string where
  "fixRemain = ''Linter-ESLint: Fix attempt complete, but linting errors remain.''"

definition fixJob ::
  "'o helpers \<Rightarrow> world \<Rightarrow> 'o \<Rightarrow> string \<Rightarrow> 'o eslint \<Rightarrow> path \<Rightarrow> (error + string) \<times> world" where
  "fixJob H w0 cliEngineOptions contents' eslint filePath' =
     (case lintJob H (log_event (FixJob filePath') w0) cliEngineOptions contents' eslint filePath' of
        (Inl e, w) \<Rightarrow> (Inl e, w)
      | (Inr report, w) \<Rightarrow>
          (let w1 = log_event (OutputFixes report) w
           in if (case results report of [] \<Rightarrow> True | r # _ \<Rightarrow> messages r = [])
              then (Inr fixComplete, w1)
              else (Inr fixRemain, w1)))"

definition handleMessage :: "'o helpers \<Rightarrow> world \<Rightarrow> 'o jobConfig \<Rightarrow> (error + unit) \<times> world" where
  "handleMessage H w0 jobConfig =
     (let w1 = (if disableFSCache (config jobConfig) then log_event FindCacheClear w0 else w0);
          fileDir = dirname (filePath jobConfig)
      in case getESLintInstance H fileDir (config jobConfig) (projectPath jobConfig) of
           Inl e \<Rightarrow> (Inl e, w1)
         | Inr eslint \<Rightarrow>
             (let configPath = getConfigPath H fileDir;
                  noProjectConfig =
                    (case configPath of None \<Rightarrow> True | Some p \<Rightarrow> isConfigAtHomeRoot H p);
                  w = log_event (ConfigChecked configPath noProjectConfig) w1
              in if noProjectConfig \<and> disableWhenNoEslintConfig (config jobConfig)
                 then (Inr (), log_event (Emit (emitKey jobConfig) (LintResponse [] None)) w)
                 else
                   (let relativeFilePath =
                          getRelativePath H fileDir (filePath jobConfig) (config jobConfig)
                            (projectPath jobConfig);
                        cliEngineOptions =
                          getCLIEngineOptions H (type jobConfig) (config jobConfig)
                            (rules jobConfig) relativeFilePath fileDir configPath
                    in if type jobConfig = ''lint'' then
                         (case lintJob H w cliEngineOptions (contents jobConfig) eslint
                                 (filePath jobConfig) of
                            (Inl e, w2) \<Rightarrow> (Inl e, w2)
                          | (Inr report, w2) \<Rightarrow>
                              (let msgs = (case results report of [] \<Rightarrow> []
                                           | r # _ \<Rightarrow> messages r);
                                   response =
                                     LintResponse msgs
                                       (if sendRules w2 then Some (rulesMetadata w2) else None)
                               in (Inr (), log_event (Emit (emitKey jobConfig) response) w2)))
                       else if type jobConfig = ''fix'' then
                         (case fixJob H w cliEngineOptions (contents jobConfig) eslint
                                 (filePath jobConfig) of
                            (Inl e, w2) \<Rightarrow> (Inl e, w2)
                          | (Inr status, w2) \<Rightarrow>
                              (Inr (), log_event (Emit (emitKey jobConfig) (FixResponse status)) w2))
                       else if type jobConfig = ''debug'' then
                         (let modulesDir =
                                dirname (case findCached H fileDir [''node_modules'', ''eslint''] of
                                           Some p \<Rightarrow> p | None \<Rightarrow> Path False [])
                          in case findESLintDirectory H modulesDir (config jobConfig)
                                    (projectPath jobConfig) of
                               Inl e \<Rightarrow> (Inl e, w)
                             | Inr d \<Rightarrow>
                                 (Inr (), log_event (Emit (emitKey jobConfig) (DebugResponse d)) w))
                       else (Inr (), log_event (Emit (emitKey jobConfig) Undefined) w))))"

text \<open>Names for what \<open>handleMessage\<close> computes on the way, used to state its properties.\<close>

definition fileDirOf :: "'o jobConfig \<Rightarrow> path" where
  "fileDirOf jobConfig = dirname (filePath jobConfig)"

definition noProjectConfig :: "'o helpers \<Rightarrow> 'o jobConfig \<Rightarrow> bool" where
  "noProjectConfig H jobConfig =
     (case getConfigPath H (fileDirOf jobConfig) of
        None \<Rightarrow> True
      | Some p \<Rightarrow> isConfigAtHomeRoot H p)"

definition skipped :: "'o helpers \<Rightarrow> 'o jobConfig \<Rightarrow> bool" where
  "skipped H jobConfig =
     (noProjectConfig H jobConfig \<and> disableWhenNoEslintConfig (config jobConfig))"

definition requestTrace :: "'o helpers \<Rightarrow> world \<Rightarrow> 'o jobConfig \<Rightarrow> event list" where
  "requestTrace H w jobConfig =
     drop (length (trace w)) (trace (snd (handleMessage H w jobConfig)))"

definition optionsOf :: "'o helpers \<Rightarrow> 'o jobConfig \<Rightarrow> 'o" where
  "optionsOf H jobConfig =
     getCLIEngineOptions H (type jobConfig) (config jobConfig) (rules jobConfig)
       (getRelativePath H (fileDirOf jobConfig) (filePath jobConfig) (config jobConfig)
          (projectPath jobConfig))
       (fileDirOf jobConfig) (getConfigPath H (fileDirOf jobConfig))"

section \<open>Rule registry (\<open>didRulesChange\<close>)\<close>

text \<open>
  Modelled from the spec: \<open>didRulesChange\<close> of \<open>src/worker-helpers.js\<close>, which is not
  among the sources. Section 4.4: the comparison "returns true if any rule was added,
  removed, or had its metadata change (deep/value equality, not identity)". The three
  disjuncts are those three cases, in that order; the first argument is the stored
  snapshot, the second the engine's current rules.
\<close>

definition diff :: "ruleMap \<Rightarrow> ruleMap \<Rightarrow> bool" where
  "diff snapshot current =
     (list_ex (\<lambda>(rule, _). map_of snapshot rule = None) current
      \<or> list_ex (\<lambda>(rule, _). map_of current rule = None) snapshot
      \<or> list_ex (\<lambda>(rule, _). case (map_of snapshot rule, map_of current rule) of
                                 (Some a, Some b) \<Rightarrow> a \<noteq> b
                               | _ \<Rightarrow> False) snapshot)"

section \<open>Engine locator and path normalizer (\<open>worker-helpers.js\<close>)\<close>

text \<open>
  What the helpers read from their surroundings: which directories and files exist, the
  platform, where the worker's own copy of the engine is installed, and the working
  directory (the segments of an absolute path), against which Node resolves relative
  paths.
\<close>

record fileSystem =
  isDirectory :: "path \<Rightarrow> bool"
  isFile :: "path \<Rightarrow> bool"
  win32 :: bool
  bundledEslint :: path
  cwd :: "string list"

text \<open>
  Modelled from the spec: the upward directory walk of section 4.1 step 3 ("search upward
  from startDir through ancestor directories"), \<open>findCached\<close> of \<open>atom-linter\<close>, not
  among the sources. It tries the directory itself, then each parent up to the root.
\<close>

function findUpward :: "(path \<Rightarrow> bool) \<Rightarrow> path \<Rightarrow> string list \<Rightarrow> path option" where
  "findUpward present dir name =
     (if present (join dir name) then Some (join dir name)
      else if segments dir = [] then None
      else findUpward present (dirname dir) name)"
  by pat_completeness auto
termination
  by (relation "measure (\<lambda>(present, dir, name). length (segments dir))")
     (auto simp: dirname_def)

declare findUpward.simps [simp del]

definition ancestorsOrSelf :: "path \<Rightarrow> path list" where
  "ancestorsOrSelf dir =
     map (\<lambda>n. Path (isAbsolute dir) (take n (segments dir)))
         (rev [0..<Suc (length (segments dir))])"

definition resolveAdvanced :: "path \<Rightarrow> path option \<Rightarrow> path" where
  "resolveAdvanced adv projectPath' =
     (if isAbsolute adv then adv
      else join (case projectPath' of Some p \<Rightarrow> p | None \<Rightarrow> Path False []) (segments adv))"

definition globalEslintDir :: "fileSystem \<Rightarrow> path \<Rightarrow> path" where
  "globalEslintDir fs prefixPath =
     (if win32 fs then join prefixPath [''node_modules'', ''eslint'']
      else join prefixPath [''lib'', ''node_modules'', ''eslint''])"

text \<open>
  Modelled from the spec: \<open>EngineLocator.resolve\<close> (\<open>getESLintInstance\<close> and
  \<open>findESLintDirectory\<close> of \<open>src/worker-helpers.js\<close>, not among the sources), following the
  resolution order of section 4.1, first match wins. The descriptor's path names the
  engine directory itself, as the tests of \<open>findESLintDirectory\<close> expect it
  (\<open>Path.join(..., 'node_modules', 'eslint')\<close>); the platform split of the global layout
  is the one of those tests (\<open>win32\<close>: \<open>node_modules\<close>, otherwise \<open>lib/node_modules\<close>).
\<close>

definition resolve :: "fileSystem \<Rightarrow> path \<Rightarrow> config \<Rightarrow> path option \<Rightarrow> error + descriptor" where
  "resolve fs startDir config' projectPath' =
     (case advancedLocalNodeModules config' of
        Some adv \<Rightarrow>
          (let eslintDir = join (resolveAdvanced adv projectPath') [''eslint'']
           in if isDirectory fs eslintDir
              then Inr \<lparr>path = eslintDir, locationType = ''advanced specified''\<rparr>
              else Inl EngineNotFoundError)
      | None \<Rightarrow>
          if useGlobalEslint config' then
            (let eslintDir = globalEslintDir fs (globalNodePath config')
             in if isDirectory fs eslintDir
                then Inr \<lparr>path = eslintDir, locationType = ''global''\<rparr>
                else Inl EngineNotFoundError)
          else
            (case findUpward (isDirectory fs) startDir [''node_modules'', ''eslint''] of
               Some eslintDir \<Rightarrow> Inr \<lparr>path = eslintDir, locationType = ''local project''\<rparr>
             | None \<Rightarrow> Inr \<lparr>path = bundledEslint fs, locationType = ''bundled fallback''\<rparr>))"

text \<open>
  Modelled from the spec: the engine handle of section 3 is the module loaded from the
  resolved directory; \<open>load\<close> stands for Node's \<open>require\<close>. A failed resolution is
  thrown on to the caller.
\<close>

definition resolveInstance ::
  "fileSystem \<Rightarrow> (path \<Rightarrow> 'o eslint) \<Rightarrow> path \<Rightarrow> config \<Rightarrow> path option \<Rightarrow> error + 'o eslint" where
  "resolveInstance fs load startDir config' projectPath' =
     (case resolve fs startDir config' projectPath' of
        Inl e \<Rightarrow> Inl e
      | Inr d \<Rightarrow> Inr (load (path d)))"

text \<open>\<open>Path.relative(from, to)\<close> on segment lists: both paths are made absolute against
  the working directory; then drop the common prefix, climb out of what is left of
  \<open>from\<close>, descend into what is left of \<open>to\<close>.\<close>

fun commonPrefix :: "string list \<Rightarrow> string list \<Rightarrow> nat" where
  "commonPrefix (x # xs) (y # ys) = (if x = y then Suc (commonPrefix xs ys) else 0)"
| "commonPrefix _ _ = 0"

definition absolute :: "fileSystem \<Rightarrow> path \<Rightarrow> string list" where
  "absolute fs p = (if isAbsolute p then segments p else cwd fs @ segments p)"

definition relative :: "fileSystem \<Rightarrow> path \<Rightarrow> path \<Rightarrow> path" where
  "relative fs from to =
     (let n = commonPrefix (absolute fs from) (absolute fs to)
      in Path False (replicate (length (absolute fs from) - n) ''..''
                     @ drop n (absolute fs to)))"

definition isAncestor :: "path \<Rightarrow> path \<Rightarrow> bool" where
  "isAncestor dir p =
     (isAbsolute dir = isAbsolute p
      \<and> length (segments dir) < length (segments p)
      \<and> take (length (segments dir)) (segments p) = segments dir)"

text \<open>
  Modelled from the spec: \<open>PathNormalizer.relativePath\<close> (\<open>getRelativePath\<close> of
  \<open>src/worker-helpers.js\<close>, not among the sources), section 4.3: "if
  config.disableEslintIgnore is true, or no ignore file is found, or the ignore file's
  directory cannot be used, fall back to: (a) if projectPath is provided and is an
  ancestor of filePath, return the path relative to projectPath; (b) otherwise return
  just the file's base name. If an ignore file is found and ignore-relative resolution is
  enabled, return filePath relative to the ignore file's directory instead." The ignore
  file is looked for by the upward walk from \<open>fileDir\<close>; its directory is the \<open>dirname\<close> of
  the path found, which always exists here, so a found ignore file always has a
  directory to use, as in the tests of \<open>getRelativePath\<close> and in section 8.
\<close>

definition relativePath :: "fileSystem \<Rightarrow> path \<Rightarrow> path \<Rightarrow> config \<Rightarrow> path option \<Rightarrow> path" where
  "relativePath fs fileDir filePath' config' projectPath' =
     (let ignoreFile = (if disableEslintIgnore config' then None
                        else findUpward (isFile fs) fileDir [''.eslintignore''])
      in case ignoreFile of
           Some f \<Rightarrow> relative fs (dirname f) filePath'
         | None \<Rightarrow>
             (case projectPath' of
                Some p \<Rightarrow> if isAncestor p filePath' then relative fs p filePath'
                          else basename filePath'
              | None \<Rightarrow> basename filePath'))"

section \<open>Sample requests\<close>

definition file1 :: path where
  "file1 = Path True [''proj'', ''src'', ''a.js'']"

definition config1 :: config where
  "config1 = \<lparr>disableFSCache = False, disableWhenNoEslintConfig = False,
              disableEslintIgnore = False, useGlobalEslint = False,
              globalNodePath = Path True [''usr'', ''local''],
              advancedLocalNodeModules = None\<rparr>"

definition rules1 :: ruleMap where
  "rules1 = [(''semi'', JObj [(''fixable'', JBool True)]), (''quotes'', JNull)]"

definition report1 :: report where
  "report1 = \<lparr>results = [\<lparr>messages = [JStr ''Missing semicolon.'']\<rparr>,
                          \<lparr>messages = [JStr ''from a second entry'']\<rparr>]\<rparr>"

definition engine1 :: "unit eslint" where
  "engine1 = \<lparr>CLIEngine = (\<lambda>_. \<lparr>executeOnText = (\<lambda>_ _. Inr report1), linterRules = rules1\<rparr>)\<rparr>"

definition helpers1 :: "unit helpers" where
  "helpers1 = \<lparr>getESLintInstance = (\<lambda>_ _ _. Inr engine1),
               getConfigPath = (\<lambda>_. None),
               isConfigAtHomeRoot = (\<lambda>_. False),
               getRelativePath = (\<lambda>_ p _ _. basename p),
               getCLIEngineOptions = (\<lambda>_ _ _ _ _ _. ()),
               getRules = linterRules,
               didRulesChange = diff,
               findCached = (\<lambda>_ _. None),
               findESLintDirectory = (\<lambda>_ _ _. Inl EngineNotFoundError)\<rparr>"

definition helpersNoEngine :: "unit helpers" where
  "helpersNoEngine = helpers1\<lparr>getESLintInstance := (\<lambda>_ _ _. Inl EngineNotFoundError)\<rparr>"

definition world0 :: world where
  "world0 = \<lparr>rulesMetadata = [], sendRules = False, trace = []\<rparr>"

definition jobLint :: "unit jobConfig" where
  "jobLint = \<lparr>contents = ''var a = 1'', type = ''lint'', config = config1, filePath = file1,
              projectPath = None, rules = None, emitKey = ''job-1''\<rparr>"

definition jobFix :: "unit jobConfig" where
  "jobFix = jobLint\<lparr>type := ''fix''\<rparr>"

definition jobSkip :: "unit jobConfig" where
  "jobSkip = jobLint\<lparr>config := config1\<lparr>disableWhenNoEslintConfig := True\<rparr>\<rparr>"

definition fsEmpty :: fileSystem where
  "fsEmpty = \<lparr>isDirectory = (\<lambda>_. False), isFile = (\<lambda>_. False), win32 = False,
              bundledEslint = Path True [''worker'', ''node_modules'', ''eslint''],
              cwd = [''home'', ''user'']\<rparr>"

definition fsAdvanced :: fileSystem where
  "fsAdvanced =
     fsEmpty\<lparr>isDirectory := (\<lambda>p. p = Path True [''opt'', ''tools'', ''node_modules'', ''eslint''])\<rparr>"

definition fsGlobal :: fileSystem where
  "fsGlobal =
     fsEmpty\<lparr>isDirectory :=
               (\<lambda>p. p = Path True [''usr'', ''local'', ''lib'', ''node_modules'', ''eslint''])\<rparr>"

definition fsLocalOnly :: fileSystem where
  "fsLocalOnly =
     fsEmpty\<lparr>isDirectory := (\<lambda>p. p = Path True [''proj'', ''node_modules'', ''eslint''])\<rparr>"

definition fsIgnore :: fileSystem where
  "fsIgnore = fsEmpty\<lparr>isFile := (\<lambda>p. p = Path True [''proj'', ''.eslintignore''])\<rparr>"

definition helpersHome :: "unit helpers" where
  "helpersHome = helpers1\<lparr>getConfigPath := (\<lambda>_. Some (Path True [''home'', ''user'', ''.eslintrc''])),
                          isConfigAtHomeRoot := (\<lambda>p. p = Path True [''home'', ''user'', ''.eslintrc''])\<rparr>"

definition configAdvanced :: config where
  "configAdvanced =
     config1\<lparr>advancedLocalNodeModules := Some (Path False [''tools'', ''node_modules''])\<rparr>"

definition configGlobal :: config where
  "configGlobal = config1\<lparr>useGlobalEslint := True\<rparr>"

definition helpersGlobal :: "unit helpers" where
  "helpersGlobal = helpers1\<lparr>getESLintInstance := resolveInstance fsLocalOnly (\<lambda>_. engine1)\<rparr>"

definition jobGlobal :: "unit jobConfig" where
  "jobGlobal = jobLint\<lparr>config := configGlobal\<rparr>"

lemmas sample_defs =
  file1_def config1_def rules1_def report1_def engine1_def helpers1_def helpersNoEngine_def
  world0_def jobLint_def jobFix_def jobSkip_def fsEmpty_def fsAdvanced_def fsGlobal_def
  fsLocalOnly_def fsIgnore_def helpersHome_def configAdvanced_def configGlobal_def
  helpersGlobal_def jobGlobal_def

lemmas worker_defs =
  handleMessage_def lintJob_def fixJob_def log_event_def emitted_def jobsRun_def
  fileDirOf_def noProjectConfig_def skipped_def optionsOf_def requestTrace_def Let_def

section \<open>Facts about maps and the lint job\<close>

lemma map_set_fresh: "k \<notin> fst ` set m \<Longrightarrow> map_set m k v = m @ [(k, v)]"
  by (induction m) auto

lemma rebuild_distinct:
  "distinct (map fst (m @ rs)) \<Longrightarrow>
   foldl (\<lambda>m (rule, properties). map_set m rule properties) m rs = m @ rs"
proof (induction rs arbitrary: m)
  case Nil
  then show ?case by simp
next
  case (Cons r rs)
  obtain k v where r: "r = (k, v)" by (cases r)
  from Cons.prems r have fresh: "k \<notin> fst ` set m" by auto
  from Cons.prems r have "distinct (map fst ((m @ [(k, v)]) @ rs))" by auto
  from Cons.IH [OF this] show ?case
    by (simp add: r map_set_fresh [OF fresh])
qed

lemma diff_iff: "diff snapshot current \<longleftrightarrow> map_of snapshot \<noteq> map_of current"
proof
  assume d: "diff snapshot current"
  show "map_of snapshot \<noteq> map_of current"
  proof
    assume eq: "map_of snapshot = map_of current"
    have none: "\<And>k v. (k, v) \<in> set current \<Longrightarrow> map_of current k \<noteq> None"
      by (metis fst_conv image_eqI map_of_eq_None_iff)
    have none': "\<And>k v. (k, v) \<in> set snapshot \<Longrightarrow> map_of current k \<noteq> None"
      unfolding eq [symmetric] by (metis fst_conv image_eqI map_of_eq_None_iff)
    from d show False
      unfolding diff_def list_ex_iff eq
      by (auto split: option.splits dest: none none')
  qed
next
  assume "map_of snapshot \<noteq> map_of current"
  then obtain k where k: "map_of snapshot k \<noteq> map_of current k" by auto
  show "diff snapshot current"
  proof (cases "map_of snapshot k")
    case None
    with k obtain b where "map_of current k = Some b" by (cases "map_of current k") auto
    then have "(k, b) \<in> set current" by (rule map_of_SomeD)
    with None show ?thesis by (auto simp: diff_def list_ex_iff)
  next
    case (Some a)
    then have a: "(k, a) \<in> set snapshot" by (rule map_of_SomeD)
    show ?thesis
    proof (cases "map_of current k")
      case None
      with a show ?thesis by (auto simp: diff_def list_ex_iff)
    next
      case (Some b)
      with k \<open>map_of snapshot k = Some a\<close> have "a \<noteq> b" by auto
      with a Some \<open>map_of snapshot k = Some a\<close>
      have "\<exists>x\<in>set snapshot. case x of (rule, _) \<Rightarrow>
              (case (map_of snapshot rule, map_of current rule) of
                 (Some a, Some b) \<Rightarrow> a \<noteq> b | _ \<Rightarrow> False)"
        by (intro bexI [of _ "(k, a)"]) simp_all
      then show ?thesis
        by (simp add: diff_def list_ex_iff)
    qed
  qed
qed


lemma lintJob_report:
  assumes "executeOnText (CLIEngine eslint opts) text fp = Inr report"
  shows "fst (lintJob H w opts text eslint fp) = Inr report"
    and "sendRules (snd (lintJob H w opts text eslint fp))
           = didRulesChange H (rulesMetadata w) (getRules H (CLIEngine eslint opts))"
    and "trace (snd (lintJob H w opts text eslint fp)) = trace w @ [LintJob fp]"
  using assms by (simp_all add: lintJob_def log_event_def Let_def)

lemma lintJob_snapshot:
  assumes "executeOnText (CLIEngine eslint opts) text fp = Inr report"
    and "distinct (map fst (getRules H (CLIEngine eslint opts)))"
  shows "rulesMetadata (snd (lintJob H w opts text eslint fp))
           = (if didRulesChange H (rulesMetadata w) (getRules H (CLIEngine eslint opts))
              then getRules H (CLIEngine eslint opts) else rulesMetadata w)"
  using assms rebuild_distinct [of "[]" "getRules H (CLIEngine eslint opts)"]
  by (simp add: lintJob_def log_event_def Let_def)


subsection \<open>The upward walk and relative paths\<close>

lemma set_ancestorsOrSelf:
  "set (ancestorsOrSelf dir)
     = (\<lambda>n. Path (isAbsolute dir) (take n (segments dir))) ` {0..length (segments dir)}"
  by (simp add: ancestorsOrSelf_def atLeastLessThanSuc_atLeastAtMost del: upt_Suc)

lemma ancestorsOrSelf_step:
  assumes "segments dir \<noteq> []"
  shows "set (ancestorsOrSelf dir) = insert dir (set (ancestorsOrSelf (dirname dir)))"
proof -
  let ?xs = "segments dir"
  have split: "{0..length ?xs} = insert (length ?xs) {0..length (butlast ?xs)}"
    using assms by (auto simp: length_butlast)
  have same: "take n (butlast ?xs) = take n ?xs" if "n \<le> length (butlast ?xs)" for n
  proof -
    have "length (butlast ?xs) = length ?xs - 1"
      by (rule length_butlast)
    moreover from assms have "length ?xs \<noteq> 0"
      by simp
    ultimately have "n < length ?xs"
      using that by arith
    then show ?thesis
      by (rule take_butlast)
  qed
  have self: "Path (isAbsolute dir) (take (length ?xs) ?xs) = dir"
    by simp
  show ?thesis
    unfolding set_ancestorsOrSelf split
    by (auto simp: dirname_def same self image_iff)
qed

lemma ancestorsOrSelf_root:
  assumes "segments dir = []"
  shows "set (ancestorsOrSelf dir) = {dir}"
  using assms by (cases dir) (simp add: ancestorsOrSelf_def)

lemma findUpward_None_iff:
  "findUpward present dir name = None
     \<longleftrightarrow> (\<forall>a \<in> set (ancestorsOrSelf dir). \<not> present (join a name))"
proof (induction present dir name rule: findUpward.induct)
  case (1 present dir name)
  show ?case
  proof (cases "present (join dir name)")
    case True
    moreover have "dir \<in> set (ancestorsOrSelf dir)"
      by (cases "segments dir = []") (simp_all add: ancestorsOrSelf_root ancestorsOrSelf_step)
    ultimately show ?thesis
      by (auto simp: findUpward.simps [of present dir name])
  next
    case False
    show ?thesis
    proof (cases "segments dir = []")
      case True
      with False show ?thesis
        by (simp add: findUpward.simps [of present dir name] ancestorsOrSelf_root)
    next
      case nonempty: False
      from "1.IH" [OF False nonempty] False nonempty show ?thesis
        by (simp add: findUpward.simps [of present dir name] ancestorsOrSelf_step)
    qed
  qed
qed

lemma commonPrefix_append: "commonPrefix xs (xs @ zs) = length xs"
  by (induction xs) simp_all

lemma join_drop_ancestor:
  assumes "isAncestor dir p"
  shows "join dir (drop (length (segments dir)) (segments p)) = p"
proof -
  from assms have "segments dir @ drop (length (segments dir)) (segments p) = segments p"
    by (metis append_take_drop_id isAncestor_def)
  with assms show ?thesis
    by (cases p) (simp add: join_def isAncestor_def)
qed

lemma relative_ancestor:
  assumes "isAncestor dir p"
  shows "relative fs dir p = Path False (drop (length (segments dir)) (segments p))"
proof -
  let ?rest = "drop (length (segments dir)) (segments p)"
  from assms have seg: "segments p = segments dir @ ?rest"
    by (metis append_take_drop_id isAncestor_def)
  from assms have same: "isAbsolute dir = isAbsolute p"
    by (simp add: isAncestor_def)
  have to: "absolute fs p = absolute fs dir @ ?rest"
    using seg same by (simp add: absolute_def)
  then have "commonPrefix (absolute fs dir) (absolute fs p) = length (absolute fs dir)"
    by (simp add: commonPrefix_append)
  then show ?thesis
    by (simp add: relative_def to)
qed

subsection \<open>What the trace of a request says\<close>

lemma config_checked_iff:
  "ConfigChecked configPath b \<in> set (requestTrace H w job)
     \<longleftrightarrow> (\<exists>eslint. getESLintInstance H (fileDirOf job) (config job) (projectPath job)
                      = Inr eslint)
         \<and> configPath = getConfigPath H (fileDirOf job)
         \<and> b = noProjectConfig H job"
proof (cases "getESLintInstance H (fileDirOf job) (config job) (projectPath job)")
  case (Inl e)
  then show ?thesis
    by (simp add: worker_defs)
next
  case (Inr eslint)
  then show ?thesis
    by (auto simp: worker_defs split: sum.splits)
qed

section \<open>Engine status of a fix\<close>

lemma fix_strings_differ: "fixComplete \<noteq> fixRemain"
  by (simp add: fixComplete_def fixRemain_def)

text \<open>
  C3. When the engine returns a report, \<open>fixJob\<close> returns one of the two fixed status
  strings, and it is the success string exactly when the report has no result entry or
  its first result entry has no message.
\<close>

theorem fixJob_status:
  assumes "executeOnText (CLIEngine eslint opts) text fp = Inr report"
  shows "\<exists>s. fst (fixJob H w opts text eslint fp) = Inr s
           \<and> (s = fixComplete \<or> s = fixRemain)
           \<and> (s = fixComplete \<longleftrightarrow>
                (length (results report) = 0 \<or> length (messages (hd (results report))) = 0))"
  using assms fix_strings_differ
  by (cases "results report") (auto simp: fixJob_def lintJob_def Let_def)

theorem fixJob_status_witness:
  "executeOnText (CLIEngine engine1 ()) ''var a = 1'' file1 = Inr report1
   \<and> fst (fixJob helpers1 world0 () ''var a = 1'' engine1 file1) = Inr fixRemain"
proof -
  have h: "executeOnText (CLIEngine engine1 ()) ''var a = 1'' file1 = Inr report1"
    by (simp add: engine1_def)
  from fixJob_status [OF h, of helpers1 world0]
  show ?thesis using h by (auto simp: report1_def)
qed

section \<open>The dispatcher\<close>

text \<open>
  C10. The engine is resolved before the project configuration is looked at: when
  resolution throws, the request ends with that error whatever the configuration lookup
  and \<open>disableWhenNoEslintConfig\<close> would say, the configuration is not looked up,
  nothing is emitted (not even the empty message list) and no job runs.
\<close>

theorem resolution_failure_emits_nothing:
  assumes "getESLintInstance H (fileDirOf job) (config job) (projectPath job) = Inl e"
  shows "fst (handleMessage H w job) = Inl e
         \<and> requestTrace H w job = (if disableFSCache (config job) then [FindCacheClear] else [])
         \<and> emitted (snd (handleMessage H w job)) = emitted w
         \<and> jobsRun (snd (handleMessage H w job)) = jobsRun w"
  using assms by (simp add: worker_defs)

theorem resolution_failure_emits_nothing_witness:
  "getESLintInstance helpersNoEngine (fileDirOf jobSkip) (config jobSkip) (projectPath jobSkip)
     = Inl EngineNotFoundError
   \<and> skipped helpersNoEngine jobSkip
   \<and> fst (handleMessage helpersNoEngine world0 jobSkip) = Inl EngineNotFoundError
   \<and> requestTrace helpersNoEngine world0 jobSkip = []
   \<and> emitted (snd (handleMessage helpersNoEngine world0 jobSkip)) = []"
proof -
  have h: "getESLintInstance helpersNoEngine (fileDirOf jobSkip) (config jobSkip)
             (projectPath jobSkip) = Inl EngineNotFoundError"
    by (simp add: helpersNoEngine_def)
  have s: "skipped helpersNoEngine jobSkip"
    by (simp add: skipped_def noProjectConfig_def sample_defs)
  have e: "emitted world0 = []" "\<not> disableFSCache (config jobSkip)"
    by (simp_all add: emitted_def sample_defs)
  with resolution_failure_emits_nothing [OF h, of world0] h s show ?thesis by simp
qed

text \<open>
  C1. A request whose engine is resolved, whose configuration lookup finds nothing or
  only a configuration at the home root, and whose \<open>disableWhenNoEslintConfig\<close> is set,
  is answered with the empty message list under its \<open>emitKey\<close>, and nothing else is
  emitted; neither \<open>lintJob\<close> nor \<open>fixJob\<close> runs and the rule snapshot is left as it
  was. (What happens when the engine is not resolved is C10.)
\<close>

theorem skip_without_project_config:
  assumes "getESLintInstance H (fileDirOf job) (config job) (projectPath job) = Inr eslint"
    and "getConfigPath H (fileDirOf job) = None
         \<or> (\<exists>p. getConfigPath H (fileDirOf job) = Some p \<and> isConfigAtHomeRoot H p)"
    and "disableWhenNoEslintConfig (config job)"
  shows "fst (handleMessage H w job) = Inr ()
         \<and> emitted (snd (handleMessage H w job)) = emitted w @ [(emitKey job, LintResponse [] None)]
         \<and> jobsRun (snd (handleMessage H w job)) = jobsRun w
         \<and> rulesMetadata (snd (handleMessage H w job)) = rulesMetadata w"
proof -
  from assms(2) have "noProjectConfig H job"
    by (auto simp: noProjectConfig_def)
  with assms(1,3) show ?thesis
    by (simp add: worker_defs)
qed

theorem skip_without_project_config_witness:
  "getESLintInstance helpers1 (fileDirOf jobSkip) (config jobSkip) (projectPath jobSkip) = Inr engine1
   \<and> getConfigPath helpers1 (fileDirOf jobSkip) = None
   \<and> disableWhenNoEslintConfig (config jobSkip)
   \<and> emitted (snd (handleMessage helpers1 world0 jobSkip)) = [(''job-1'', LintResponse [] None)]
   \<and> jobsRun (snd (handleMessage helpers1 world0 jobSkip)) = []
   \<and> getESLintInstance helpersHome (fileDirOf jobSkip) (config jobSkip) (projectPath jobSkip)
       = Inr engine1
   \<and> getConfigPath helpersHome (fileDirOf jobSkip) = Some (Path True [''home'', ''user'', ''.eslintrc''])
   \<and> isConfigAtHomeRoot helpersHome (Path True [''home'', ''user'', ''.eslintrc''])
   \<and> emitted (snd (handleMessage helpersHome world0 jobSkip)) = [(''job-1'', LintResponse [] None)]
   \<and> jobsRun (snd (handleMessage helpersHome world0 jobSkip)) = []"
proof -
  let ?rc = "Path True [''home'', ''user'', ''.eslintrc'']"
  have a1: "getESLintInstance helpers1 (fileDirOf jobSkip) (config jobSkip) (projectPath jobSkip)
              = Inr engine1"
    and a2: "getConfigPath helpers1 (fileDirOf jobSkip) = None"
    by (simp_all add: helpers1_def)
  have b1: "getESLintInstance helpersHome (fileDirOf jobSkip) (config jobSkip) (projectPath jobSkip)
              = Inr engine1"
    and b2: "getConfigPath helpersHome (fileDirOf jobSkip) = Some ?rc"
    and b3: "isConfigAtHomeRoot helpersHome ?rc"
    by (simp_all add: helpersHome_def helpers1_def)
  have h3: "disableWhenNoEslintConfig (config jobSkip)"
    by (simp add: sample_defs)
  have e: "emitted world0 = []" "jobsRun world0 = []" "emitKey jobSkip = ''job-1''"
    by (simp_all add: emitted_def jobsRun_def sample_defs)
  from a2 have none: "getConfigPath helpers1 (fileDirOf jobSkip) = None
      \<or> (\<exists>p. getConfigPath helpers1 (fileDirOf jobSkip) = Some p \<and> isConfigAtHomeRoot helpers1 p)"
    by simp
  from b2 b3 have home: "getConfigPath helpersHome (fileDirOf jobSkip) = None
      \<or> (\<exists>p. getConfigPath helpersHome (fileDirOf jobSkip) = Some p \<and> isConfigAtHomeRoot helpersHome p)"
    by simp
  from skip_without_project_config [OF a1 none h3, of world0]
       skip_without_project_config [OF b1 home h3, of world0]
       a1 a2 b1 b2 b3 h3 e
  show ?thesis by simp
qed

text \<open>
  C9. A lint request that is executed answers with the messages of the first result entry
  of the engine's report and nothing of the later entries; with no result entry the
  message list is empty.
\<close>

theorem lint_response_messages:
  assumes "type job = ''lint''"
    and "getESLintInstance H (fileDirOf job) (config job) (projectPath job) = Inr eslint"
    and "\<not> skipped H job"
    and "executeOnText (CLIEngine eslint (optionsOf H job)) (contents job) (filePath job)
           = Inr report"
  shows "\<exists>u. emitted (snd (handleMessage H w job))
              = emitted w @ [(emitKey job,
                              LintResponse (case results report of [] \<Rightarrow> []
                                            | first # later \<Rightarrow> messages first) u)]"
  using assms by (auto simp: worker_defs)

theorem lint_response_messages_witness:
  "type jobLint = ''lint''
   \<and> getESLintInstance helpers1 (fileDirOf jobLint) (config jobLint) (projectPath jobLint)
       = Inr engine1
   \<and> \<not> skipped helpers1 jobLint
   \<and> executeOnText (CLIEngine engine1 (optionsOf helpers1 jobLint)) (contents jobLint)
       (filePath jobLint) = Inr report1
   \<and> (\<exists>u. emitted (snd (handleMessage helpers1 world0 jobLint))
            = [(''job-1'', LintResponse [JStr ''Missing semicolon.''] u)])"
proof -
  have h1: "type jobLint = ''lint''"
    by (simp add: jobLint_def)
  have h2: "getESLintInstance helpers1 (fileDirOf jobLint) (config jobLint) (projectPath jobLint)
              = Inr engine1"
    by (simp add: helpers1_def)
  have h3: "\<not> skipped helpers1 jobLint"
    by (simp add: skipped_def jobLint_def config1_def)
  have h4: "executeOnText (CLIEngine engine1 (optionsOf helpers1 jobLint)) (contents jobLint)
              (filePath jobLint) = Inr report1"
    by (simp add: engine1_def)
  have e: "emitted world0 = []" "emitKey jobLint = ''job-1''"
    by (simp_all add: emitted_def world0_def jobLint_def)
  from lint_response_messages [OF h1 h2 h3 h4, of world0] h1 h2 h3 h4 e
  show ?thesis by (simp add: report1_def)
qed

section \<open>Rule metadata\<close>

text \<open>
  C5. With the registry comparison of section 4.4 for \<open>didRulesChange\<close>, a lint run that
  starts from an empty snapshot and meets a non-empty rule set reports a change; a
  second run with the same rule set reports none; a change is reported exactly when some
  rule was added, removed, or has another metadata value; and whenever a change is
  reported the stored snapshot becomes the whole current rule set, otherwise it stays.
\<close>

theorem registry_diff:
  assumes "didRulesChange H = diff"
    and "executeOnText (CLIEngine eslint opts) text fp = Inr report"
    and "distinct (map fst (getRules H (CLIEngine eslint opts)))"
    and "executeOnText (CLIEngine eslint2 opts2) text2 fp2 = Inr report2"
    and "getRules H (CLIEngine eslint2 opts2) = getRules H (CLIEngine eslint opts)"
  shows "let snapshot = rulesMetadata w;
             current = getRules H (CLIEngine eslint opts);
             w1 = snd (lintJob H w opts text eslint fp);
             w2 = snd (lintJob H w1 opts2 text2 eslint2 fp2)
         in (snapshot = [] \<and> current \<noteq> [] \<longrightarrow> sendRules w1)
          \<and> \<not> sendRules w2
          \<and> (sendRules w1 \<longleftrightarrow>
               (\<exists>rule. (map_of snapshot rule = None \<and> map_of current rule \<noteq> None)
                     \<or> (map_of snapshot rule \<noteq> None \<and> map_of current rule = None)
                     \<or> (\<exists>a b. map_of snapshot rule = Some a \<and> map_of current rule = Some b
                               \<and> a \<noteq> b)))
          \<and> (sendRules w1 \<longrightarrow> rulesMetadata w1 = current)
          \<and> (\<not> sendRules w1 \<longrightarrow> rulesMetadata w1 = snapshot)
          \<and> rulesMetadata w2 = rulesMetadata w1"
proof -
  let ?cur = "getRules H (CLIEngine eslint opts)"
  let ?w1 = "snd (lintJob H w opts text eslint fp)"
  let ?w2 = "snd (lintJob H ?w1 opts2 text2 eslint2 fp2)"
  have s1: "sendRules ?w1 = diff (rulesMetadata w) ?cur"
    using lintJob_report(2) [OF assms(2)] assms(1) by simp
  have m1: "rulesMetadata ?w1 = (if diff (rulesMetadata w) ?cur then ?cur else rulesMetadata w)"
    using lintJob_snapshot [OF assms(2,3)] assms(1) by simp
  have same: "\<not> diff (rulesMetadata ?w1) ?cur"
    by (simp add: m1 diff_iff)
  have s2: "sendRules ?w2 = diff (rulesMetadata ?w1) ?cur"
    using lintJob_report(2) [OF assms(4)] assms(1,5) by simp
  have m2: "rulesMetadata ?w2 = rulesMetadata ?w1"
    using lintJob_snapshot [OF assms(4), of H ?w1] assms(1,3,5) same by simp
  have first: "rulesMetadata w = [] \<Longrightarrow> ?cur \<noteq> [] \<Longrightarrow> diff (rulesMetadata w) ?cur"
    by (cases ?cur) (auto simp: diff_def)
  have cases: "diff (rulesMetadata w) ?cur \<longleftrightarrow>
      (\<exists>rule. (map_of (rulesMetadata w) rule = None \<and> map_of ?cur rule \<noteq> None)
            \<or> (map_of (rulesMetadata w) rule \<noteq> None \<and> map_of ?cur rule = None)
            \<or> (\<exists>a b. map_of (rulesMetadata w) rule = Some a \<and> map_of ?cur rule = Some b
                      \<and> a \<noteq> b))"
    (is "_ \<longleftrightarrow> ?R")
  proof
    assume "diff (rulesMetadata w) ?cur"
    then obtain k where k: "map_of (rulesMetadata w) k \<noteq> map_of ?cur k"
      unfolding diff_iff by auto
    show ?R
      by (rule exI [of _ k]) (use k in \<open>cases "map_of (rulesMetadata w) k"; cases "map_of ?cur k"; simp\<close>)
  next
    assume ?R
    then have "map_of (rulesMetadata w) \<noteq> map_of ?cur"
      by (metis option.inject)
    then show "diff (rulesMetadata w) ?cur"
      by (simp add: diff_iff)
  qed
  have c1: "rulesMetadata w = [] \<and> ?cur \<noteq> [] \<longrightarrow> sendRules ?w1"
    using first s1 by simp
  have c2: "\<not> sendRules ?w2"
    using same s2 by simp
  have c3: "sendRules ?w1 \<longleftrightarrow> ?R"
    using cases s1 by simp
  have c4: "sendRules ?w1 \<longrightarrow> rulesMetadata ?w1 = ?cur"
    using s1 m1 by simp
  have c5: "\<not> sendRules ?w1 \<longrightarrow> rulesMetadata ?w1 = rulesMetadata w"
    using s1 m1 by simp
  show ?thesis
    unfolding Let_def by (intro conjI c1 c2 c3 c4 c5 m2)
qed


theorem registry_diff_witness:
  "didRulesChange helpers1 = diff
   \<and> executeOnText (CLIEngine engine1 ()) ''var a = 1'' file1 = Inr report1
   \<and> distinct (map fst (getRules helpers1 (CLIEngine engine1 ())))
   \<and> rulesMetadata world0 = [] \<and> getRules helpers1 (CLIEngine engine1 ()) = rules1
   \<and> sendRules (snd (lintJob helpers1 world0 () ''var a = 1'' engine1 file1))
   \<and> rulesMetadata (snd (lintJob helpers1 world0 () ''var a = 1'' engine1 file1)) = rules1
   \<and> \<not> sendRules (snd (lintJob helpers1
                           (snd (lintJob helpers1 world0 () ''var a = 1'' engine1 file1))
                           () ''var a = 1'' engine1 file1))"
proof -
  have h1: "didRulesChange helpers1 = diff"
    by (simp add: helpers1_def)
  have h2: "executeOnText (CLIEngine engine1 ()) ''var a = 1'' file1 = Inr report1"
    by (simp add: engine1_def)
  have r: "getRules helpers1 (CLIEngine engine1 ()) = rules1"
    by (simp add: helpers1_def engine1_def)
  have h3: "distinct (map fst (getRules helpers1 (CLIEngine engine1 ())))"
    by (simp add: r rules1_def)
  have e: "rulesMetadata world0 = []" "rules1 \<noteq> []"
    by (simp_all add: world0_def rules1_def)
  from registry_diff [OF h1 h2 h3 h2 refl, of world0] h1 h2 h3 r e
  show ?thesis by (simp add: Let_def)
qed

text \<open>
  C2, as the code has it. For a request that runs the engine, the snapshot afterwards is
  the engine's whole current rule set when the comparison reported a change and the old
  snapshot otherwise, for \<open>lint\<close> and for \<open>fix\<close> alike. A \<open>lint\<close> response carries
  \<open>updatedRules\<close>, the new snapshot, exactly when the comparison of that request
  reported a change. A \<open>fix\<close> response is the status string, and no response other than a
  \<open>lint\<close> response carries \<open>updatedRules\<close>. The engine's rules are a JavaScript \<open>Map\<close>,
  so their keys are distinct.
\<close>

theorem updatedRules_only_with_lint:
  assumes "getESLintInstance H (fileDirOf job) (config job) (projectPath job) = Inr eslint"
    and "\<not> skipped H job"
    and "executeOnText (CLIEngine eslint (optionsOf H job)) (contents job) (filePath job)
           = Inr report"
    and "distinct (map fst (getRules H (CLIEngine eslint (optionsOf H job))))"
  shows "let current = getRules H (CLIEngine eslint (optionsOf H job));
             changed = didRulesChange H (rulesMetadata w) current;
             w' = snd (handleMessage H w job)
         in (type job = ''lint'' \<or> type job = ''fix'' \<longrightarrow>
               rulesMetadata w' = (if changed then current else rulesMetadata w))
          \<and> (type job = ''lint'' \<longrightarrow>
               (\<exists>ms. emitted w' = emitted w @
                  [(emitKey job, LintResponse ms (if changed then Some current else None))]))
          \<and> (type job = ''fix'' \<longrightarrow>
               (\<exists>status. emitted w' = emitted w @ [(emitKey job, FixResponse status)]))
          \<and> (type job \<noteq> ''lint'' \<longrightarrow>
               (\<forall>(key, r) \<in> set (drop (length (emitted w)) (emitted w')). updatedRules r = None))"
  using assms rebuild_distinct [of "[]" "getRules H (CLIEngine eslint (optionsOf H job))"]
  by (auto simp: worker_defs split: sum.splits)

theorem updatedRules_only_with_lint_witness:
  "getESLintInstance helpers1 (fileDirOf jobLint) (config jobLint) (projectPath jobLint)
     = Inr engine1
   \<and> \<not> skipped helpers1 jobLint
   \<and> executeOnText (CLIEngine engine1 (optionsOf helpers1 jobLint)) (contents jobLint)
       (filePath jobLint) = Inr report1
   \<and> distinct (map fst (getRules helpers1 (CLIEngine engine1 (optionsOf helpers1 jobLint))))
   \<and> type jobLint = ''lint''
   \<and> didRulesChange helpers1 (rulesMetadata world0) rules1
   \<and> rulesMetadata (snd (handleMessage helpers1 world0 jobLint)) = rules1
   \<and> (\<exists>ms. emitted (snd (handleMessage helpers1 world0 jobLint))
             = [(''job-1'', LintResponse ms (Some rules1))])"
proof -
  have h1: "getESLintInstance helpers1 (fileDirOf jobLint) (config jobLint) (projectPath jobLint)
              = Inr engine1"
    by (simp add: helpers1_def)
  have h2: "\<not> skipped helpers1 jobLint"
    by (simp add: skipped_def jobLint_def config1_def)
  have h3: "executeOnText (CLIEngine engine1 (optionsOf helpers1 jobLint)) (contents jobLint)
              (filePath jobLint) = Inr report1"
    by (simp add: engine1_def)
  have r: "getRules helpers1 (CLIEngine engine1 (optionsOf helpers1 jobLint)) = rules1"
    by (simp add: helpers1_def engine1_def)
  have h4: "distinct (map fst (getRules helpers1 (CLIEngine engine1 (optionsOf helpers1 jobLint))))"
    by (simp add: helpers1_def engine1_def rules1_def)
  have t: "type jobLint = ''lint''" "emitKey jobLint = ''job-1''"
    by (simp_all add: jobLint_def)
  have c: "didRulesChange helpers1 (rulesMetadata world0) rules1"
    by (simp add: helpers1_def world0_def rules1_def diff_def)
  have e: "emitted world0 = []"
    by (simp add: emitted_def world0_def)
  from updatedRules_only_with_lint [OF h1 h2 h3 h4, of world0] h1 h2 h3 h4 r t c e
  show ?thesis by (simp add: Let_def)
qed

text \<open>
  The claim as worded extends to every request type that runs the engine. A \<open>fix\<close>
  request runs it: here its comparison reports a change and the snapshot is replaced,
  yet the response carries no \<open>updatedRules\<close>.
\<close>

theorem fix_changes_rules_counterexample:
  "type jobFix = ''fix''
   \<and> didRulesChange helpers1 (rulesMetadata world0)
       (getRules helpers1 (CLIEngine engine1 (optionsOf helpers1 jobFix)))
   \<and> rulesMetadata world0 = []
   \<and> rulesMetadata (snd (handleMessage helpers1 world0 jobFix)) = rules1
   \<and> map (\<lambda>(key, r). updatedRules r) (emitted (snd (handleMessage helpers1 world0 jobFix)))
       = [None]"
  by (simp add: worker_defs sample_defs dirname_def diff_def)

section \<open>Engine resolution\<close>

text \<open>
  C4. With \<open>advancedLocalNodeModules\<close> set, resolution looks only at the engine directory
  directly under that path, taken as it is when absolute and under \<open>projectPath\<close> when
  relative. If the engine is there, the result has type "advanced specified" and that
  directory as its path, whatever \<open>useGlobalEslint\<close> says; if not, resolution fails and
  no other strategy is tried.
\<close>

theorem resolve_advanced:
  assumes "advancedLocalNodeModules cfg = Some adv"
  shows "resolve fs startDir (cfg\<lparr>useGlobalEslint := g\<rparr>) projectDir
           = (if isDirectory fs (join (resolveAdvanced adv projectDir) [''eslint''])
              then Inr \<lparr>path = join (resolveAdvanced adv projectDir) [''eslint''],
                        locationType = ''advanced specified''\<rparr>
              else Inl EngineNotFoundError)
         \<and> (isAbsolute adv \<longrightarrow> resolveAdvanced adv projectDir = adv)
         \<and> (\<not> isAbsolute adv \<longrightarrow> (\<forall>p. projectDir = Some p \<longrightarrow>
               resolveAdvanced adv projectDir = join p (segments adv)))"
  using assms by (simp add: resolve_def resolveAdvanced_def Let_def)


theorem resolve_advanced_witness:
  "advancedLocalNodeModules configAdvanced = Some (Path False [''tools'', ''node_modules''])
   \<and> resolve fsAdvanced (dirname file1) (configAdvanced\<lparr>useGlobalEslint := True\<rparr>)
         (Some (Path True [''opt'']))
       = Inr \<lparr>path = Path True [''opt'', ''tools'', ''node_modules'', ''eslint''],
              locationType = ''advanced specified''\<rparr>
   \<and> resolve fsLocalOnly (dirname file1) (configAdvanced\<lparr>useGlobalEslint := False\<rparr>)
         (Some (Path True [''opt'']))
       = Inl EngineNotFoundError"
proof -
  have h: "advancedLocalNodeModules configAdvanced = Some (Path False [''tools'', ''node_modules''])"
    by (simp add: configAdvanced_def)
  from resolve_advanced [OF h, of fsAdvanced "dirname file1" True "Some (Path True [''opt''])"]
       resolve_advanced [OF h, of fsLocalOnly "dirname file1" False "Some (Path True [''opt''])"]
       h
  show ?thesis
    by (simp add: join_def fsAdvanced_def fsLocalOnly_def fsEmpty_def)
qed

text \<open>
  C7. With \<open>advancedLocalNodeModules\<close> unset and \<open>useGlobalEslint\<close> true, resolution looks
  at one directory only, under \<open>globalNodePath\<close>: \<open>node_modules/eslint\<close> on \<open>win32\<close>,
  \<open>lib/node_modules/eslint\<close> elsewhere. If the engine is there the type is "global"; if
  not, resolution fails with \<open>EngineNotFoundError\<close>, whatever local or bundled engine
  exists, and a worker resolving its engine this way ends the request with that error
  and emits nothing.
\<close>

theorem resolve_global:
  assumes "advancedLocalNodeModules cfg = None"
    and "useGlobalEslint cfg"
  shows "resolve fs startDir cfg projectDir
           = (if isDirectory fs (globalEslintDir fs (globalNodePath cfg))
              then Inr \<lparr>path = globalEslintDir fs (globalNodePath cfg), locationType = ''global''\<rparr>
              else Inl EngineNotFoundError)
         \<and> globalEslintDir fs (globalNodePath cfg)
             = join (globalNodePath cfg)
                 (if win32 fs then [''node_modules'', ''eslint'']
                  else [''lib'', ''node_modules'', ''eslint''])
         \<and> (\<not> isDirectory fs (globalEslintDir fs (globalNodePath cfg))
              \<and> getESLintInstance H = resolveInstance fs load \<and> config job = cfg \<longrightarrow>
                fst (handleMessage H w job) = Inl EngineNotFoundError
                \<and> emitted (snd (handleMessage H w job)) = emitted w)"
  using assms
  by (simp add: resolve_def resolveInstance_def globalEslintDir_def Let_def
        handleMessage_def log_event_def emitted_def)


theorem resolve_global_witness:
  "advancedLocalNodeModules configGlobal = None \<and> useGlobalEslint configGlobal
   \<and> resolve fsGlobal (dirname file1) configGlobal None
       = Inr \<lparr>path = Path True [''usr'', ''local'', ''lib'', ''node_modules'', ''eslint''],
              locationType = ''global''\<rparr>
   \<and> isDirectory fsLocalOnly (Path True [''proj'', ''node_modules'', ''eslint''])
   \<and> resolve fsLocalOnly (dirname file1) configGlobal None = Inl EngineNotFoundError
   \<and> getESLintInstance helpersGlobal = resolveInstance fsLocalOnly (\<lambda>_. engine1)
   \<and> config jobGlobal = configGlobal
   \<and> fst (handleMessage helpersGlobal world0 jobGlobal) = Inl EngineNotFoundError
   \<and> emitted (snd (handleMessage helpersGlobal world0 jobGlobal)) = []"
proof -
  have h1: "advancedLocalNodeModules configGlobal = None"
    and h2: "useGlobalEslint configGlobal"
    by (simp_all add: configGlobal_def config1_def)
  have g: "getESLintInstance helpersGlobal = resolveInstance fsLocalOnly (\<lambda>_. engine1)"
    and c: "config jobGlobal = configGlobal"
    by (simp_all add: helpersGlobal_def jobGlobal_def)
  have e: "emitted world0 = []"
    by (simp add: emitted_def world0_def)
  have p: "globalNodePath configGlobal = Path True [''usr'', ''local'']"
    by (simp add: configGlobal_def config1_def)
  have d: "isDirectory fsGlobal (globalEslintDir fsGlobal (globalNodePath configGlobal))"
          "\<not> isDirectory fsLocalOnly (globalEslintDir fsLocalOnly (globalNodePath configGlobal))"
          "isDirectory fsLocalOnly (Path True [''proj'', ''node_modules'', ''eslint''])"
          "globalEslintDir fsGlobal (globalNodePath configGlobal)
             = Path True [''usr'', ''local'', ''lib'', ''node_modules'', ''eslint'']"
    by (simp_all add: p globalEslintDir_def join_def fsGlobal_def fsLocalOnly_def fsEmpty_def)
  from resolve_global [OF h1 h2, of fsGlobal "dirname file1" None helpersGlobal
                         "\<lambda>_. engine1" jobGlobal world0]
  have found: "resolve fsGlobal (dirname file1) configGlobal None
                 = Inr \<lparr>path = Path True [''usr'', ''local'', ''lib'', ''node_modules'', ''eslint''],
                        locationType = ''global''\<rparr>"
    using d by simp
  from resolve_global [OF h1 h2, of fsLocalOnly "dirname file1" None helpersGlobal
                         "\<lambda>_. engine1" jobGlobal world0]
  have missing: "resolve fsLocalOnly (dirname file1) configGlobal None = Inl EngineNotFoundError"
    and thrown: "fst (handleMessage helpersGlobal world0 jobGlobal) = Inl EngineNotFoundError"
                "emitted (snd (handleMessage helpersGlobal world0 jobGlobal)) = []"
    using d g c e by simp_all
  from h1 h2 found d(3) missing g c thrown
  show ?thesis
    by simp
qed

text \<open>
  C8. With \<open>advancedLocalNodeModules\<close> unset and \<open>useGlobalEslint\<close> false, when neither
  the starting directory nor any directory above it holds \<open>node_modules/eslint\<close>,
  resolution returns the worker's own engine with type "bundled fallback"; it does not
  fail.
\<close>

theorem resolve_bundled:
  assumes "advancedLocalNodeModules cfg = None"
    and "\<not> useGlobalEslint cfg"
    and "\<forall>dir \<in> set (ancestorsOrSelf startDir).
           \<not> isDirectory fs (join dir [''node_modules'', ''eslint''])"
  shows "resolve fs startDir cfg projectDir
           = Inr \<lparr>path = bundledEslint fs, locationType = ''bundled fallback''\<rparr>"
proof -
  from assms(3) have "findUpward (isDirectory fs) startDir [''node_modules'', ''eslint''] = None"
    by (simp add: findUpward_None_iff)
  with assms(1,2) show ?thesis
    by (simp add: resolve_def)
qed


theorem resolve_bundled_witness:
  "advancedLocalNodeModules config1 = None \<and> \<not> useGlobalEslint config1
   \<and> ancestorsOrSelf (dirname file1)
       = [Path True [''proj'', ''src''], Path True [''proj''], Path True []]
   \<and> \<not> isDirectory fsEmpty (Path True [''proj'', ''src'', ''node_modules'', ''eslint''])
   \<and> \<not> isDirectory fsEmpty (Path True [''proj'', ''node_modules'', ''eslint''])
   \<and> \<not> isDirectory fsEmpty (Path True [''node_modules'', ''eslint''])
   \<and> resolve fsEmpty (dirname file1) config1 None
       = Inr \<lparr>path = Path True [''worker'', ''node_modules'', ''eslint''],
              locationType = ''bundled fallback''\<rparr>"
proof -
  have h1: "advancedLocalNodeModules config1 = None"
    and h2: "\<not> useGlobalEslint config1"
    by (simp_all add: config1_def)
  have h3: "\<forall>dir \<in> set (ancestorsOrSelf (dirname file1)).
              \<not> isDirectory fsEmpty (join dir [''node_modules'', ''eslint''])"
    by (simp add: fsEmpty_def)
  have a: "ancestorsOrSelf (dirname file1)
             = [Path True [''proj'', ''src''], Path True [''proj''], Path True []]"
    by (simp add: ancestorsOrSelf_def dirname_def file1_def)
  from resolve_bundled [OF h1 h2 h3, of None] h1 h2 a
  show ?thesis
    by (simp add: fsEmpty_def)
qed

section \<open>Relative path\<close>

text \<open>
  C6. If an ignore file is found and \<open>disableEslintIgnore\<close> is not set, the result is the
  file's path relative to the ignore file's directory. Otherwise (\<open>disableEslintIgnore\<close>
  set, or no ignore file found) the result is the file's path relative to \<open>projectPath\<close>
  when that is given and is an ancestor of the file (joined to \<open>projectPath\<close> it gives the
  file back), and the file's base name when it is not.
\<close>

theorem relativePath_cases:
  "(\<not> disableEslintIgnore cfg
      \<and> findUpward (isFile fs) fileDir [''.eslintignore''] = Some f
    \<longrightarrow> relativePath fs fileDir file cfg projectDir = relative fs (dirname f) file)
   \<and> (disableEslintIgnore cfg
        \<or> findUpward (isFile fs) fileDir [''.eslintignore''] = None
      \<longrightarrow> (\<forall>p. projectDir = Some p \<and> isAncestor p file \<longrightarrow>
               relativePath fs fileDir file cfg projectDir = relative fs p file
               \<and> join p (segments (relativePath fs fileDir file cfg projectDir)) = file)
          \<and> (projectDir = None \<or> (\<exists>p. projectDir = Some p \<and> \<not> isAncestor p file) \<longrightarrow>
               relativePath fs fileDir file cfg projectDir = basename file))"
  by (auto simp: relativePath_def Let_def relative_ancestor join_drop_ancestor)

theorem relativePath_cases_witness:
  "\<not> disableEslintIgnore config1
   \<and> findUpward (isFile fsIgnore) (dirname file1) [''.eslintignore'']
       = Some (Path True [''proj'', ''.eslintignore''])
   \<and> relativePath fsIgnore (dirname file1) file1 config1 None = Path False [''src'', ''a.js'']
   \<and> disableEslintIgnore (config1\<lparr>disableEslintIgnore := True\<rparr>)
   \<and> relativePath fsIgnore (dirname file1) file1 (config1\<lparr>disableEslintIgnore := True\<rparr>) None
       = Path False [''a.js'']
   \<and> isAncestor (Path True [''proj'']) file1
   \<and> relativePath fsIgnore (dirname file1) file1 (config1\<lparr>disableEslintIgnore := True\<rparr>)
         (Some (Path True [''proj''])) = Path False [''src'', ''a.js'']
   \<and> findUpward (isFile fsEmpty) (dirname file1) [''.eslintignore''] = None
   \<and> \<not> isAncestor (Path True [''other'']) file1
   \<and> relativePath fsEmpty (dirname file1) file1 config1 (Some (Path True [''other'']))
       = Path False [''a.js'']"
proof -
  let ?ignore = "Path True [''proj'', ''.eslintignore'']"
  let ?off = "config1\<lparr>disableEslintIgnore := True\<rparr>"
  have h1: "\<not> disableEslintIgnore config1"
    by (simp add: config1_def)
  have h2: "findUpward (isFile fsIgnore) (dirname file1) [''.eslintignore''] = Some ?ignore"
    by (simp add: findUpward.simps dirname_def join_def file1_def fsIgnore_def fsEmpty_def)
  have h4: "disableEslintIgnore ?off"
    by simp
  have h5: "isAncestor (Path True [''proj'']) file1"
    by (simp add: isAncestor_def file1_def)
  have h6: "findUpward (isFile fsEmpty) (dirname file1) [''.eslintignore''] = None"
    by (simp add: findUpward.simps dirname_def join_def file1_def fsEmpty_def)
  have h7: "\<not> isAncestor (Path True [''other'']) file1"
    by (simp add: isAncestor_def file1_def)
  have r: "relative fsIgnore (dirname ?ignore) file1 = Path False [''src'', ''a.js'']"
          "relative fsIgnore (Path True [''proj'']) file1 = Path False [''src'', ''a.js'']"
          "basename file1 = Path False [''a.js'']"
    by (simp_all add: relative_def absolute_def dirname_def basename_def file1_def)
  from relativePath_cases [of config1 fsIgnore "dirname file1" ?ignore file1 None]
       relativePath_cases [of ?off fsIgnore "dirname file1" ?ignore file1 None]
       relativePath_cases [of ?off fsIgnore "dirname file1" ?ignore file1
                             "Some (Path True [''proj''])"]
       relativePath_cases [of config1 fsEmpty "dirname file1" ?ignore file1
                             "Some (Path True [''other''])"]
       h1 h2 h4 h5 h6 h7 r
  show ?thesis
    by simp
qed

end
